theory Spec2Isabelle
  imports Main
begin

section \<open>JavaScript values, errors and HTTP outcomes\<close>

text \<open>
  The services exchange plain JavaScript objects: the rows a query returns and the
  bodies a handler sends. An object is a list of properties in insertion order.
\<close>

datatype jsval =
    JUndefined
  | JNum int
  | JStr string
  | JDate int
  | JObj "(string \<times> jsval) list"

type_synonym js_object = "(string \<times> jsval) list"

text \<open>A thrown value: \<^verbatim>\<open>new Error(msg)\<close>, or the \<^verbatim>\<open>TypeError\<close> the runtime raises.\<close>

datatype js_error = Error string | TypeError string

fun message :: "js_error \<Rightarrow> string" where
  "message (Error m) = m"
| "message (TypeError m) = m"

text \<open>
  \<^verbatim>\<open>const { password: _password, ...safeUser } = user\<close>: the rest object holds every
  own property of \<open>user\<close> except the named one.
\<close>

definition omit :: "string \<Rightarrow> js_object \<Rightarrow> js_object" where
  "omit k obj = filter (\<lambda>kv. fst kv \<noteq> k) obj"

definition keys :: "js_object \<Rightarrow> string list" where
  "keys obj = map fst obj"

section \<open>The bcrypt dependency\<close>

text \<open>
  \<^verbatim>\<open>bcrypt\<close> is a third-party package, not code of this repository. The services take
  it as a parameter: \<open>bcrypt_hash data rounds rnd\<close> is \<^verbatim>\<open>bcrypt.hash(data, rounds)\<close>
  where \<open>rnd\<close> is the randomness the library draws for the salt, and
  \<open>bcrypt_compare data encrypted\<close> is \<^verbatim>\<open>bcrypt.compare(data, encrypted)\<close>. Either call
  may reject, which is the \<open>Inl\<close> result.
\<close>

record bcrypt_lib =
  bcrypt_hash :: "string \<Rightarrow> nat \<Rightarrow> string \<Rightarrow> js_error + string"
  bcrypt_compare :: "string \<Rightarrow> string \<Rightarrow> js_error + bool"

text \<open>
  The documented behaviour of the package on string arguments, with the cipher itself
  (the expensive key schedule and its radix-64 output) left as the parameter \<open>eks\<close>:
  \<^item> a digest is the 29 characters \<^verbatim>\<open>$2b$NN$\<close> followed by the 22 characters of the salt,
    followed by the cipher's output;
  \<^item> the cipher reads the rounds and the salt from those 29 characters, and only the
    first 72 bytes of the data: the package's manual states that any further bytes are
    ignored when matching passwords;
  \<^item> \<^verbatim>\<open>compare\<close> recomputes the digest of the data under the salt of the stored digest
    and compares the two strings; a stored string without the prefix of a digest
    compares false, and neither call rejects string arguments.
  Strings are byte strings (the UTF-8 encoding of the JavaScript string). The drawn
  randomness is given as characters and padded or cut to the 22 of an encoded salt.
\<close>

definition two_digits :: "nat \<Rightarrow> string" where
  "two_digits n = [''0123456789'' ! (n div 10 mod 10), ''0123456789'' ! (n mod 10)]"

definition bcrypt_gensalt :: "nat \<Rightarrow> string \<Rightarrow> string" where
  "bcrypt_gensalt rounds rnd =
     ''$2b$'' @ two_digits (max 4 (min 31 rounds)) @ ''$'' @ take 22 (rnd @ replicate 22 (CHR ''.''))"

definition is_digit :: "char \<Rightarrow> bool" where
  "is_digit c = (c \<in> set ''0123456789'')"

definition bcrypt_valid_salt :: "string \<Rightarrow> bool" where
  "bcrypt_valid_salt s =
     (29 \<le> length s \<and> take 2 s = ''$2'' \<and> s ! 2 \<in> set ''ab'' \<and> s ! 3 = CHR ''$''
      \<and> is_digit (s ! 4) \<and> is_digit (s ! 5) \<and> s ! 6 = CHR ''$'')"

definition bcrypt_crypt :: "(string \<Rightarrow> string \<Rightarrow> string) \<Rightarrow> string \<Rightarrow> string \<Rightarrow> string" where
  "bcrypt_crypt eks data salt = take 29 salt @ eks (take 29 salt) (take 72 data)"

definition bcrypt :: "(string \<Rightarrow> string \<Rightarrow> string) \<Rightarrow> bcrypt_lib" where
  "bcrypt eks =
     \<lparr> bcrypt_hash = (\<lambda>data rounds rnd. Inr (bcrypt_crypt eks data (bcrypt_gensalt rounds rnd))),
       bcrypt_compare = (\<lambda>data encrypted.
          Inr (bcrypt_valid_salt encrypted \<and> bcrypt_crypt eks data encrypted = encrypted)) \<rparr>"

section \<open>The users table\<close>

text \<open>
  Modelled from the spec: the table schema \<^verbatim>\<open>src/models/user.model.js\<close> is not among the
  sources. A user is the record \<^verbatim>\<open>{id, name, email, password, role, created_at,
  updated_at}\<close>; the column names are the ones the services use. The storage layer assigns
  the id and both timestamps of an inserted row; they are the parameter \<open>db_gen\<close>.
  The table is a list of rows in the order a scan returns them. Queries are reliable:
  the failure of the connection is outside the model.
\<close>

record user_row =
  row_id :: int
  row_name :: string
  row_email :: string
  row_password :: string
  row_role :: string
  row_created_at :: int
  row_updated_at :: int

type_synonym users_table = "user_row list"

datatype column = Id | Name | Email | Password | Role | Created_at | Updated_at

fun column_value :: "column \<Rightarrow> user_row \<Rightarrow> jsval" where
  "column_value Id u = JNum (row_id u)"
| "column_value Name u = JStr (row_name u)"
| "column_value Email u = JStr (row_email u)"
| "column_value Password u = JStr (row_password u)"
| "column_value Role u = JStr (row_role u)"
| "column_value Created_at u = JDate (row_created_at u)"
| "column_value Updated_at u = JDate (row_updated_at u)"

text \<open>\<^verbatim>\<open>select({k: users.c, ...})\<close> and \<^verbatim>\<open>returning({k: users.c, ...})\<close> build one object per row.\<close>

definition select_fields :: "(string \<times> column) list \<Rightarrow> user_row \<Rightarrow> js_object" where
  "select_fields sel u = map (\<lambda>(k, c). (k, column_value c u)) sel"

text \<open>\<^verbatim>\<open>select()\<close> without a selection returns every column of the table.\<close>

definition users :: "(string \<times> column) list" where
  "users = [(''id'', Id), (''name'', Name), (''email'', Email), (''password'', Password),
            (''role'', Role), (''created_at'', Created_at), (''updated_at'', Updated_at)]"

record db_gen =
  gen_id :: int
  gen_now :: int

record user_values =
  val_name :: string
  val_email :: string
  val_password :: string
  val_role :: string

text \<open>
  The three queries of the services, each returning its rows and the table after it.
  \<^verbatim>\<open>db.select().from(users).where(eq(users.email, email)).limit(n)\<close>:
\<close>

definition select_where_email :: "users_table \<Rightarrow> string \<Rightarrow> nat \<Rightarrow> user_row list \<times> users_table" where
  "select_where_email db e n = (take n (filter (\<lambda>u. row_email u = e) db), db)"

text \<open>\<^verbatim>\<open>db.select({...}).from(users)\<close>:\<close>

definition select_from :: "users_table \<Rightarrow> user_row list \<times> users_table" where
  "select_from db = (db, db)"

text \<open>\<^verbatim>\<open>db.insert(users).values({...}).returning({...})\<close>: one row is appended.\<close>

definition insert_values :: "users_table \<Rightarrow> db_gen \<Rightarrow> user_values \<Rightarrow> user_row list \<times> users_table" where
  "insert_values db g v =
     (let u = \<lparr> row_id = gen_id g, row_name = val_name v, row_email = val_email v,
                row_password = val_password v, row_role = val_role v,
                row_created_at = gen_now g, row_updated_at = gen_now g \<rparr>
      in ([u], db @ [u]))"

section \<open>auth.service.js\<close>

text \<open>
  Every service takes the table and returns its result with the table after the call;
  a thrown error is the \<open>Inl\<close> result. A \<^verbatim>\<open>catch\<close> that logs and rethrows passes the error
  on unchanged. The calls of the logger do not bear on results and are left out.
\<close>

definition hashPassword :: "bcrypt_lib \<Rightarrow> string \<Rightarrow> string \<Rightarrow> js_error + string" where
  "hashPassword lib rnd password =
     (case bcrypt_hash lib password 10 rnd of
        Inl e \<Rightarrow> Inl (Error ''Error hashing the password'')
      | Inr h \<Rightarrow> Inr h)"

definition comparePassword :: "bcrypt_lib \<Rightarrow> string \<Rightarrow> string \<Rightarrow> js_error + bool" where
  "comparePassword lib password hashedPassword =
     (case bcrypt_compare lib password hashedPassword of
        Inl e \<Rightarrow> Inl (Error ''Error comparing the password'')
      | Inr b \<Rightarrow> Inr b)"

record credentials =
  email :: string
  password :: string

text \<open>The argument of \<open>createUser\<close>; \<open>role = None\<close> is an omitted (undefined) role.\<close>

record new_user = credentials +
  name :: string
  role :: "string option"

definition createUser ::
  "bcrypt_lib \<Rightarrow> string \<Rightarrow> db_gen \<Rightarrow> users_table \<Rightarrow> new_user \<Rightarrow> (js_error + js_object) \<times> users_table" where
  "createUser lib rnd g db arg =
     (let role' = (case role arg of None \<Rightarrow> ''user'' | Some r \<Rightarrow> r);
          (found, db1) = select_where_email db (email arg) 1
      in case found of
           existingUser # _ \<Rightarrow> (Inl (Error ''User with this email already exists''), db1)
         | [] \<Rightarrow>
           (case hashPassword lib rnd (password arg) of
              Inl e \<Rightarrow> (Inl e, db1)
            | Inr password_hash \<Rightarrow>
                (let (inserted, db2) =
                       insert_values db1 g
                         \<lparr> val_name = name arg, val_email = email arg,
                           val_password = password_hash, val_role = role' \<rparr>
                 in case inserted of
                      newUser # _ \<Rightarrow>
                        (Inr (select_fields [(''id'', Id), (''name'', Name), (''email'', Email),
                                      (''role'', Role), (''created_at'', Created_at)] newUser), db2)
                    | [] \<Rightarrow> (Inl (TypeError ''Cannot read properties of undefined''), db2))))"

definition authenticateUser ::
  "bcrypt_lib \<Rightarrow> users_table \<Rightarrow> credentials \<Rightarrow> (js_error + js_object) \<times> users_table" where
  "authenticateUser lib db arg =
     (let (found, db1) = select_where_email db (email arg) 1
      in case found of
           [] \<Rightarrow> (Inl (Error ''Invalid email or password''), db1)
         | user # _ \<Rightarrow>
           (case comparePassword lib (password arg) (row_password user) of
              Inl e \<Rightarrow> (Inl e, db1)
            | Inr isMatch \<Rightarrow>
                if \<not> isMatch then (Inl (Error ''Invalid email or password''), db1)
                else (Inr (omit ''password'' (select_fields users user)), db1)))"

section \<open>users.services.js\<close>

definition getAllUsers :: "users_table \<Rightarrow> (js_error + js_object list) \<times> users_table" where
  "getAllUsers db =
     (let (allUsers, db1) = select_from db
      in (Inr (map (select_fields [(''id'', Id), (''email'', Email), (''name'', Name), (''role'', Role),
                            (''created_at'', Created_at), (''updated_at'', Updated_at)]) allUsers), db1))"

section \<open>The signup handler\<close>

text \<open>
  The schema \<^verbatim>\<open>signUpSchema\<close> and \<^verbatim>\<open>formatValidationError\<close> are not among the sources; the
  handler takes them as the parameters \<open>safeParse\<close> and \<open>fmt\<close>. A parse result is
  \<^verbatim>\<open>{success: false, error}\<close> or \<^verbatim>\<open>{success: true, data}\<close>, where \<open>data\<close> is the parsed body.
\<close>

datatype 'e safe_parse = ParseFailure 'e | ParseSuccess jsval

text \<open>
  What a handler does with a request: \<^verbatim>\<open>res.status(n).json(body)\<close>, \<^verbatim>\<open>next(e)\<close>, or
  returning without either.
\<close>

datatype response = Respond nat jsval | Next js_error | NoResponse

text \<open>
  The call \<open>f()\<close> of a value: no \<open>jsval\<close> is callable, so the runtime throws.
\<close>

fun js_call :: "string \<Rightarrow> jsval \<Rightarrow> js_error + jsval" where
  "js_call expr v = Inl (TypeError (expr @ '' is not a function''))"

definition signup_try :: "(jsval \<Rightarrow> 'e safe_parse) \<Rightarrow> ('e \<Rightarrow> jsval) \<Rightarrow> jsval \<Rightarrow> js_error + response" where
  "signup_try safeParse fmt body =
     (case safeParse body of
        ParseFailure err \<Rightarrow>
          Inr (Respond 400 (JObj [(''error'', JStr ''Validation Failded''), (''details'', fmt err)]))
      | ParseSuccess d \<Rightarrow>
          (case js_call ''validationResult.data'' d of
             Inl e \<Rightarrow> Inl e
           | Inr v \<Rightarrow>
               if v = JUndefined then Inl (TypeError ''Cannot destructure property of undefined'')
               else Inr NoResponse))"

definition signup_catch :: "js_error \<Rightarrow> response" where
  "signup_catch e =
     (if message e = ''User with this email already exists''
      then Respond 409 (JObj [(''error'', JStr ''Email already exists'')])
      else Next e)"

definition signup :: "(jsval \<Rightarrow> 'e safe_parse) \<Rightarrow> ('e \<Rightarrow> jsval) \<Rightarrow> jsval \<Rightarrow> response" where
  "signup safeParse fmt body =
     (case signup_try safeParse fmt body of
        Inl e \<Rightarrow> signup_catch e
      | Inr r \<Rightarrow> r)"

section \<open>Example values\<close>

text \<open>
  A stand-in cipher (its output is the key it was given), a library whose calls reject,
  and two stored users; the first one's password is \<open>p1\<close> hashed under the stand-in.
\<close>

definition example_eks :: "string \<Rightarrow> string \<Rightarrow> string" where
  "example_eks salt key = key"

definition failing_lib :: bcrypt_lib where
  "failing_lib =
     \<lparr> bcrypt_hash = (\<lambda>data rounds rnd. Inl (Error ''data and salt arguments required'')),
       bcrypt_compare = (\<lambda>data encrypted. Inl (Error ''data and hash arguments required'')) \<rparr>"

definition alice :: user_row where
  "alice = \<lparr> row_id = 1, row_name = ''A'', row_email = ''a@x.com'',
     row_password = ''$2b$10$salt..................p1'', row_role = ''user'',
     row_created_at = 100, row_updated_at = 100 \<rparr>"

definition bob :: user_row where
  "bob = \<lparr> row_id = 2, row_name = ''B'', row_email = ''b@x.com'',
     row_password = ''$2b$10$pepper................hunter2'', row_role = ''admin'',
     row_created_at = 200, row_updated_at = 200 \<rparr>"

section \<open>Auxiliary facts\<close>

lemma take1_filter:
  "take (Suc 0) (filter P xs) = (case find P xs of None \<Rightarrow> [] | Some x \<Rightarrow> [x])"
  by (induction xs) auto

lemma find_None_conv: "find P xs = None \<longleftrightarrow> (\<forall>x \<in> set xs. \<not> P x)"
  by (induction xs) auto

lemma find_SomeD: "find P xs = Some x \<Longrightarrow> x \<in> set xs \<and> P x"
  by (induction xs) (auto split: if_splits)

lemma find_append_cases:
  "find P (xs @ ys) = (case find P xs of None \<Rightarrow> find P ys | Some x \<Rightarrow> Some x)"
  by (induction xs) auto

text \<open>The two services, with the queries unfolded.\<close>

lemma createUser_eq:
  "createUser lib rnd g db arg =
     (if \<exists>u \<in> set db. row_email u = email arg
      then (Inl (Error ''User with this email already exists''), db)
      else case hashPassword lib rnd (password arg) of
             Inl e \<Rightarrow> (Inl e, db)
           | Inr h \<Rightarrow>
               (let u = \<lparr> row_id = gen_id g, row_name = name arg, row_email = email arg,
                          row_password = h,
                          row_role = (case role arg of None \<Rightarrow> ''user'' | Some r \<Rightarrow> r),
                          row_created_at = gen_now g, row_updated_at = gen_now g \<rparr>
                in (Inr [(''id'', JNum (row_id u)), (''name'', JStr (row_name u)),
                         (''email'', JStr (row_email u)), (''role'', JStr (row_role u)),
                         (''created_at'', JDate (row_created_at u))], db @ [u])))"
  by (auto simp: createUser_def select_where_email_def insert_values_def select_fields_def
        take1_filter find_None_conv Let_def
      split: option.splits sum.splits list.splits dest: find_SomeD)

lemma authenticateUser_eq:
  "authenticateUser lib db arg =
     (case find (\<lambda>u. row_email u = email arg) db of
        None \<Rightarrow> (Inl (Error ''Invalid email or password''), db)
      | Some user \<Rightarrow>
          (case comparePassword lib (password arg) (row_password user) of
             Inl e \<Rightarrow> (Inl e, db)
           | Inr isMatch \<Rightarrow>
               if isMatch then (Inr (omit ''password'' (select_fields users user)), db)
               else (Inl (Error ''Invalid email or password''), db)))"
  by (auto simp: authenticateUser_def select_where_email_def take1_filter
      split: option.splits sum.splits list.splits)

text \<open>A generated salt has the 29 characters of a valid one.\<close>

lemma length_bcrypt_gensalt: "length (bcrypt_gensalt 10 rnd) = 29"
  by (simp add: bcrypt_gensalt_def two_digits_def)

lemma bcrypt_valid_gensalt: "bcrypt_valid_salt (bcrypt_gensalt 10 rnd @ d)"
  by (simp add: bcrypt_valid_salt_def bcrypt_gensalt_def two_digits_def is_digit_def)

lemma comparePassword_bcrypt_crypt:
  "comparePassword (bcrypt eks) p (bcrypt_crypt eks q (bcrypt_gensalt 10 rnd)) =
     Inr (eks (bcrypt_gensalt 10 rnd) (take 72 p) = eks (bcrypt_gensalt 10 rnd) (take 72 q))"
  using bcrypt_valid_gensalt[of rnd] length_bcrypt_gensalt[of rnd]
  by (simp add: comparePassword_def bcrypt_def bcrypt_crypt_def)

lemma hashPassword_bcrypt:
  "hashPassword (bcrypt eks) rnd q = Inr (bcrypt_crypt eks q (bcrypt_gensalt 10 rnd))"
  by (simp add: hashPassword_def bcrypt_def)

lemma take_29_bcrypt_crypt:
  "take 29 (bcrypt_crypt eks q (bcrypt_gensalt 10 rnd)) = bcrypt_gensalt 10 rnd"
  by (simp add: bcrypt_crypt_def length_bcrypt_gensalt)

text \<open>Removing a property, and the properties left of a full row.\<close>

lemma map_of_omit: "map_of (omit k obj) k' = (if k' = k then None else map_of obj k')"
  by (induction obj) (auto simp: omit_def)

lemma keys_omit_users:
  "keys (omit ''password'' (select_fields users u))
     = [''id'', ''name'', ''email'', ''role'', ''created_at'', ''updated_at'']"
  by (simp add: keys_def omit_def select_fields_def users_def)

section \<open>Responses of the signup handler\<close>

text \<open>
  C1. A signup request whose body passes validation should be answered with status 201
  and the created user. The handler does not do so: on a successful parse it calls
  \<^verbatim>\<open>validationResult.data()\<close>, which is no function, and the resulting \<^verbatim>\<open>TypeError\<close> goes to
  \<^verbatim>\<open>next\<close>; no path of the handler sends a 201.
\<close>

theorem signup_valid_body_never_201:
  "signup (\<lambda>body. ParseSuccess d) fmt body
     = Next (TypeError ''validationResult.data is not a function'')
   \<and> signup safeParse fmt body \<noteq> Respond 201 b"
  by (simp add: signup_def signup_try_def signup_catch_def split: safe_parse.splits)

section \<open>Creating a user\<close>

text \<open>
  C2. When the table holds a user with the email of the argument, \<open>createUser\<close> fails with
  the error "User with this email already exists" and the table is as before. The catch
  clause of the signup handler has a branch that maps that error to status 409, but no
  path of its try block throws it: the handler never calls \<open>createUser\<close>, so it answers
  no request with 409, and a validated request that reuses an email ends in \<^verbatim>\<open>next\<close> with
  the \<^verbatim>\<open>TypeError\<close> like every other.
\<close>

theorem signup_duplicate_email_never_409:
  "((\<exists>u \<in> set db. row_email u = email arg) \<longrightarrow>
       createUser lib rnd g db arg = (Inl (Error ''User with this email already exists''), db))
   \<and> signup_catch (Error ''User with this email already exists'')
       = Respond 409 (JObj [(''error'', JStr ''Email already exists'')])
   \<and> signup_try safeParse fmt body \<noteq> Inl (Error ''User with this email already exists'')
   \<and> signup safeParse fmt body \<noteq> Respond 409 b
   \<and> signup (\<lambda>body. ParseSuccess d) fmt body
       = Next (TypeError ''validationResult.data is not a function'')"
  by (simp add: createUser_eq signup_def signup_try_def signup_catch_def split: safe_parse.splits)

theorem signup_duplicate_email_never_409_witness:
  "(\<exists>u \<in> set [alice, bob]. row_email u = ''b@x.com'')
   \<and> createUser (bcrypt example_eks) ''salt'' \<lparr>gen_id = 3, gen_now = 300\<rparr> [alice, bob]
        \<lparr>email = ''b@x.com'', password = ''p2'', name = ''B2'', role = None\<rparr>
       = (Inl (Error ''User with this email already exists''), [alice, bob])
   \<and> signup ParseSuccess (\<lambda>err :: unit. JUndefined)
        (JObj [(''name'', JStr ''B2''), (''email'', JStr ''b@x.com''), (''password'', JStr ''p2'')])
       = Next (TypeError ''validationResult.data is not a function'')"
proof -
  have h: "\<exists>u \<in> set [alice, bob]. row_email u
               = email \<lparr>email = ''b@x.com'', password = ''p2'', name = ''B2'', role = None\<rparr>"
    by (simp add: bob_def)
  from signup_duplicate_email_never_409
         [of "[alice, bob]" "\<lparr>email = ''b@x.com'', password = ''p2'', name = ''B2'', role = None\<rparr>"
             "bcrypt example_eks" "''salt''" "\<lparr>gen_id = 3, gen_now = 300\<rparr>"
             ParseSuccess "\<lambda>err :: unit. JUndefined"
             "JObj [(''name'', JStr ''B2''), (''email'', JStr ''b@x.com''), (''password'', JStr ''p2'')]"]
       h
  show ?thesis
    by (auto simp: signup_def signup_try_def signup_catch_def)
qed

section \<open>Authenticating a user\<close>

text \<open>
  C3. A call of \<open>authenticateUser\<close> whose email matches no stored user, and a call whose
  email matches a stored user but whose password the hash verification rejects, fail
  with the same error, "Invalid email or password".
\<close>

theorem authenticateUser_failures_identical:
  assumes "\<forall>u \<in> set db1. row_email u \<noteq> email a1"
    and "\<exists>u \<in> set db2. row_email u = email a2"
    and "\<forall>u \<in> set db2. row_email u = email a2 \<longrightarrow>
           comparePassword lib (password a2) (row_password u) = Inr False"
  shows "fst (authenticateUser lib db1 a1) = Inl (Error ''Invalid email or password'')
       \<and> fst (authenticateUser lib db2 a2) = Inl (Error ''Invalid email or password'')
       \<and> fst (authenticateUser lib db1 a1) = fst (authenticateUser lib db2 a2)"
proof -
  from assms(1) have "find (\<lambda>u. row_email u = email a1) db1 = None"
    by (simp add: find_None_conv)
  then have 1: "fst (authenticateUser lib db1 a1) = Inl (Error ''Invalid email or password'')"
    by (simp add: authenticateUser_eq)
  from assms(2) obtain u where u: "find (\<lambda>u. row_email u = email a2) db2 = Some u"
    by (cases "find (\<lambda>u. row_email u = email a2) db2") (auto simp: find_None_conv)
  with assms(3) have "comparePassword lib (password a2) (row_password u) = Inr False"
    by (auto dest: find_SomeD)
  with u have 2: "fst (authenticateUser lib db2 a2) = Inl (Error ''Invalid email or password'')"
    by (simp add: authenticateUser_eq)
  from 1 2 show ?thesis by simp
qed

theorem authenticateUser_failures_identical_witness:
  "row_email alice \<noteq> ''b@x.com''
   \<and> (\<exists>u \<in> set [alice]. row_email u = ''a@x.com'')
   \<and> comparePassword (bcrypt example_eks) ''wrong'' (row_password alice) = Inr False
   \<and> fst (authenticateUser (bcrypt example_eks) [alice] \<lparr>email = ''b@x.com'', password = ''p1''\<rparr>)
       = Inl (Error ''Invalid email or password'')
   \<and> fst (authenticateUser (bcrypt example_eks) [alice] \<lparr>email = ''a@x.com'', password = ''wrong''\<rparr>)
       = Inl (Error ''Invalid email or password'')"
proof -
  have h1: "\<forall>u \<in> set [alice]. row_email u \<noteq> email \<lparr>email = ''b@x.com'', password = ''p1''\<rparr>"
    by (simp add: alice_def)
  have h2: "\<exists>u \<in> set [alice]. row_email u = email \<lparr>email = ''a@x.com'', password = ''wrong''\<rparr>"
    by (simp add: alice_def)
  have c: "comparePassword (bcrypt example_eks) ''wrong'' (row_password alice) = Inr False"
    by (simp add: comparePassword_def bcrypt_def bcrypt_crypt_def example_eks_def alice_def)
  then have h3: "\<forall>u \<in> set [alice].
      row_email u = email \<lparr>email = ''a@x.com'', password = ''wrong''\<rparr> \<longrightarrow>
      comparePassword (bcrypt example_eks) (password \<lparr>email = ''a@x.com'', password = ''wrong''\<rparr>)
        (row_password u) = Inr False"
    by simp
  from authenticateUser_failures_identical [OF h1 h2 h3] h1 h2 c show ?thesis by simp
qed

text \<open>
  C4. After \<open>createUser\<close> has succeeded for a name, an email and a password, authenticating
  with that email and password on the resulting table succeeds and returns the created
  user: the properties \<open>createUser\<close> returned, which carry that name and email, followed
  by updated_at. A successful \<open>createUser\<close> already implies that no stored user had the
  email. The library is a parameter, so its contract is a premise: it accepts the
  password against the digest it made of it.
\<close>

theorem createUser_then_authenticateUser:
  assumes "createUser lib rnd g db \<lparr>email = e, password = p, name = n, role = r\<rparr> = (Inr created, db')"
    and "\<forall>h. bcrypt_hash lib p 10 rnd = Inr h \<longrightarrow> bcrypt_compare lib p h = Inr True"
  shows "authenticateUser lib db' \<lparr>email = e, password = p\<rparr>
           = (Inr (created @ [(''updated_at'', JDate (gen_now g))]), db')
       \<and> created = [(''id'', JNum (gen_id g)), (''name'', JStr n), (''email'', JStr e),
                     (''role'', JStr (case r of None \<Rightarrow> ''user'' | Some r' \<Rightarrow> r')),
                     (''created_at'', JDate (gen_now g))]"
proof -
  from assms(1) have fresh: "\<forall>u \<in> set db. row_email u \<noteq> e"
    by (auto simp: createUser_eq split: if_splits)
  with assms(1) obtain h where h: "hashPassword lib rnd p = Inr h"
    and db': "db' = db @ [\<lparr> row_id = gen_id g, row_name = n, row_email = e, row_password = h,
                   row_role = (case r of None \<Rightarrow> ''user'' | Some r \<Rightarrow> r),
                   row_created_at = gen_now g, row_updated_at = gen_now g \<rparr>]"
    and created: "created = [(''id'', JNum (gen_id g)), (''name'', JStr n), (''email'', JStr e),
                     (''role'', JStr (case r of None \<Rightarrow> ''user'' | Some r' \<Rightarrow> r')),
                     (''created_at'', JDate (gen_now g))]"
    by (auto simp: createUser_eq Let_def split: sum.splits)
  from h have "bcrypt_hash lib p 10 rnd = Inr h"
    by (simp add: hashPassword_def split: sum.splits)
  with assms(2) have "comparePassword lib p h = Inr True"
    by (simp add: comparePassword_def)
  moreover from fresh have "find (\<lambda>u. row_email u = e) db = None"
    by (simp add: find_None_conv)
  ultimately have "authenticateUser lib db' \<lparr>email = e, password = p\<rparr>
           = (Inr (created @ [(''updated_at'', JDate (gen_now g))]), db')"
    by (simp add: authenticateUser_eq db' created find_append_cases omit_def select_fields_def users_def)
  with created show ?thesis by simp
qed

theorem createUser_then_authenticateUser_witness:
  "createUser (bcrypt example_eks) ''salt'' \<lparr>gen_id = 1, gen_now = 100\<rparr> []
       \<lparr>email = ''a@x.com'', password = ''p1'', name = ''A'', role = None\<rparr>
     = (Inr [(''id'', JNum 1), (''name'', JStr ''A''), (''email'', JStr ''a@x.com''),
             (''role'', JStr ''user''), (''created_at'', JDate 100)], [alice])
   \<and> bcrypt_hash (bcrypt example_eks) ''p1'' 10 ''salt'' = Inr (row_password alice)
   \<and> bcrypt_compare (bcrypt example_eks) ''p1'' (row_password alice) = Inr True
   \<and> authenticateUser (bcrypt example_eks) [alice] \<lparr>email = ''a@x.com'', password = ''p1''\<rparr>
         = (Inr [(''id'', JNum 1), (''name'', JStr ''A''), (''email'', JStr ''a@x.com''),
                 (''role'', JStr ''user''), (''created_at'', JDate 100),
                 (''updated_at'', JDate 100)], [alice])"
proof -
  have h1: "createUser (bcrypt example_eks) ''salt'' \<lparr>gen_id = 1, gen_now = 100\<rparr> []
       \<lparr>email = ''a@x.com'', password = ''p1'', name = ''A'', role = None\<rparr>
     = (Inr [(''id'', JNum 1), (''name'', JStr ''A''), (''email'', JStr ''a@x.com''),
             (''role'', JStr ''user''), (''created_at'', JDate 100)], [alice])"
    by code_simp
  have h2: "\<forall>h. bcrypt_hash (bcrypt example_eks) ''p1'' 10 ''salt'' = Inr h \<longrightarrow>
            bcrypt_compare (bcrypt example_eks) ''p1'' h = Inr True"
    by (auto simp add: bcrypt_def bcrypt_crypt_def length_bcrypt_gensalt bcrypt_valid_gensalt)
  have h3: "bcrypt_hash (bcrypt example_eks) ''p1'' 10 ''salt'' = Inr (row_password alice)"
    by code_simp
  with h2 have h4: "bcrypt_compare (bcrypt example_eks) ''p1'' (row_password alice) = Inr True"
    by blast
  from createUser_then_authenticateUser [OF h1 h2] h1 h3 h4 show ?thesis by simp
qed

section \<open>What the services return\<close>

text \<open>
  C5. A successful \<open>createUser\<close> returns exactly the properties id, name, email, role and
  created_at of the inserted row, so neither a password nor a hash. A successful
  \<open>authenticateUser\<close> returns the stored user it found without the password property:
  every other property is as stored.
\<close>

theorem results_exclude_password:
  "(createUser lib rnd g db arg = (Inr newUser, db') \<longrightarrow>
      keys newUser = [''id'', ''name'', ''email'', ''role'', ''created_at'']
      \<and> db' \<noteq> []
      \<and> newUser = select_fields [(''id'', Id), (''name'', Name), (''email'', Email),
                                  (''role'', Role), (''created_at'', Created_at)] (last db'))
   \<and> (authenticateUser lib db2 cred = (Inr safeUser, db2') \<longrightarrow>
      keys safeUser = [''id'', ''name'', ''email'', ''role'', ''created_at'', ''updated_at'']
      \<and> (\<exists>user. find (\<lambda>u. row_email u = email cred) db2 = Some user
            \<and> (\<forall>k. map_of safeUser k
                    = (if k = ''password'' then None else map_of (select_fields users user) k))))"
proof (intro conjI impI)
  assume c: "createUser lib rnd g db arg = (Inr newUser, db')"
  then show "keys newUser = [''id'', ''name'', ''email'', ''role'', ''created_at'']"
    by (auto simp: createUser_eq keys_def Let_def split: if_splits sum.splits)
  from c show "db' \<noteq> []"
    by (auto simp: createUser_eq Let_def split: if_splits sum.splits)
  from c show "newUser = select_fields [(''id'', Id), (''name'', Name), (''email'', Email),
                                  (''role'', Role), (''created_at'', Created_at)] (last db')"
    by (auto simp: createUser_eq select_fields_def Let_def split: if_splits sum.splits)
next
  assume a: "authenticateUser lib db2 cred = (Inr safeUser, db2')"
  then obtain user where u: "find (\<lambda>u. row_email u = email cred) db2 = Some user"
    and s: "safeUser = omit ''password'' (select_fields users user)"
    by (auto simp: authenticateUser_eq split: option.splits sum.splits if_splits)
  from s show "keys safeUser = [''id'', ''name'', ''email'', ''role'', ''created_at'', ''updated_at'']"
    by (simp add: keys_omit_users)
  from u s show "\<exists>user. find (\<lambda>u. row_email u = email cred) db2 = Some user
            \<and> (\<forall>k. map_of safeUser k
                    = (if k = ''password'' then None else map_of (select_fields users user) k))"
    by (simp add: map_of_omit)
qed

theorem results_exclude_password_witness:
  "createUser (bcrypt example_eks) ''salt'' \<lparr>gen_id = 1, gen_now = 100\<rparr> []
       \<lparr>email = ''a@x.com'', password = ''p1'', name = ''A'', role = None\<rparr>
     = (Inr [(''id'', JNum 1), (''name'', JStr ''A''), (''email'', JStr ''a@x.com''),
             (''role'', JStr ''user''), (''created_at'', JDate 100)], [alice])
   \<and> authenticateUser (bcrypt example_eks) [alice] \<lparr>email = ''a@x.com'', password = ''p1''\<rparr>
     = (Inr [(''id'', JNum 1), (''name'', JStr ''A''), (''email'', JStr ''a@x.com''),
             (''role'', JStr ''user''), (''created_at'', JDate 100), (''updated_at'', JDate 100)], [alice])
   \<and> keys [(''id'', JNum 1), (''name'', JStr ''A''), (''email'', JStr ''a@x.com''),
             (''role'', JStr ''user''), (''created_at'', JDate 100)]
       = [''id'', ''name'', ''email'', ''role'', ''created_at'']
   \<and> keys [(''id'', JNum 1), (''name'', JStr ''A''), (''email'', JStr ''a@x.com''),
             (''role'', JStr ''user''), (''created_at'', JDate 100), (''updated_at'', JDate 100)]
       = [''id'', ''name'', ''email'', ''role'', ''created_at'', ''updated_at'']"
proof -
  have h1: "createUser (bcrypt example_eks) ''salt'' \<lparr>gen_id = 1, gen_now = 100\<rparr> []
       \<lparr>email = ''a@x.com'', password = ''p1'', name = ''A'', role = None\<rparr>
     = (Inr [(''id'', JNum 1), (''name'', JStr ''A''), (''email'', JStr ''a@x.com''),
             (''role'', JStr ''user''), (''created_at'', JDate 100)], [alice])"
    by code_simp
  have h2: "authenticateUser (bcrypt example_eks) [alice] \<lparr>email = ''a@x.com'', password = ''p1''\<rparr>
     = (Inr [(''id'', JNum 1), (''name'', JStr ''A''), (''email'', JStr ''a@x.com''),
             (''role'', JStr ''user''), (''created_at'', JDate 100), (''updated_at'', JDate 100)], [alice])"
    by code_simp
  from results_exclude_password [of "bcrypt example_eks" "''salt''" "\<lparr>gen_id = 1, gen_now = 100\<rparr>" "[]"
      "\<lparr>email = ''a@x.com'', password = ''p1'', name = ''A'', role = None\<rparr>" _ "[alice]"
      "[alice]" "\<lparr>email = ''a@x.com'', password = ''p1''\<rparr>" _ "[alice]"] h1 h2
  show ?thesis by simp
qed

section \<open>Hashing and verifying\<close>

text \<open>
  C6, as amended. Under the documented behaviour of bcrypt, \<open>hashPassword\<close> returns a
  digest \<open>h\<close> of the plaintext \<open>q\<close>; \<open>comparePassword\<close> accepts \<open>q\<close> against \<open>h\<close>; and it
  accepts another plaintext \<open>p\<close> against \<open>h\<close> exactly when the cipher, under the salt of
  \<open>h\<close>, gives the first 72 bytes of \<open>p\<close> the output it gives the first 72 bytes of \<open>q\<close>.
\<close>

theorem comparePassword_hashPassword:
  "\<exists>h. hashPassword (bcrypt eks) rnd q = Inr h
     \<and> comparePassword (bcrypt eks) q h = Inr True
     \<and> comparePassword (bcrypt eks) p h
         = Inr (eks (take 29 h) (take 72 p) = eks (take 29 h) (take 72 q))"
  by (simp add: hashPassword_bcrypt comparePassword_bcrypt_crypt take_29_bcrypt_crypt)

text \<open>
  C6 as stated, that distinct plaintexts never verify against each other's digest, fails
  for two plaintexts of 73 bytes that differ in the last one, whatever the cipher.
\<close>

theorem comparePassword_long_plaintexts_counterexample:
  "replicate 72 (CHR ''a'') @ ''x'' \<noteq> replicate 72 (CHR ''a'') @ ''y''
   \<and> (\<forall>eks. \<exists>h. hashPassword (bcrypt eks) ''salt'' (replicate 72 (CHR ''a'') @ ''y'') = Inr h
          \<and> comparePassword (bcrypt eks) (replicate 72 (CHR ''a'') @ ''x'') h = Inr True)"
  by (simp add: hashPassword_bcrypt comparePassword_bcrypt_crypt)

text \<open>
  C7. \<open>comparePassword\<close> returns the boolean the library returns, so \<open>False\<close> on a mismatch;
  it throws, and then "Error comparing the password", exactly when the library call
  itself fails. Under the documented behaviour of bcrypt it returns a boolean for every
  plaintext and every stored string.
\<close>

theorem comparePassword_throws_only_on_library_failure:
  "(comparePassword lib p h = Inr b) = (bcrypt_compare lib p h = Inr b)
   \<and> (comparePassword lib p h = Inl e)
       = (e = Error ''Error comparing the password'' \<and> (\<exists>e'. bcrypt_compare lib p h = Inl e'))
   \<and> (\<exists>b. comparePassword (bcrypt eks) p h = Inr b)"
  by (auto simp: comparePassword_def bcrypt_def split: sum.splits)

theorem comparePassword_throws_only_on_library_failure_witness:
  "comparePassword (bcrypt example_eks) ''wrong'' (row_password alice) = Inr False
   \<and> comparePassword (bcrypt example_eks) ''p1'' ''no digest'' = Inr False
   \<and> bcrypt_compare failing_lib ''p1'' (row_password alice)
       = Inl (Error ''data and hash arguments required'')
   \<and> comparePassword failing_lib ''p1'' (row_password alice)
       = Inl (Error ''Error comparing the password'')"
proof -
  have 1: "bcrypt_compare (bcrypt example_eks) ''wrong'' (row_password alice) = Inr False"
    by (simp add: bcrypt_def bcrypt_crypt_def example_eks_def alice_def)
  have 2: "bcrypt_compare (bcrypt example_eks) ''p1'' ''no digest'' = Inr False"
    by (simp add: bcrypt_def bcrypt_valid_salt_def)
  have 3: "bcrypt_compare failing_lib ''p1'' (row_password alice)
       = Inl (Error ''data and hash arguments required'')"
    by (simp add: failing_lib_def)
  from 1 comparePassword_throws_only_on_library_failure
         [of "bcrypt example_eks" "''wrong''" "row_password alice" False]
  have a: "comparePassword (bcrypt example_eks) ''wrong'' (row_password alice) = Inr False"
    by blast
  from 2 comparePassword_throws_only_on_library_failure
         [of "bcrypt example_eks" "''p1''" "''no digest''" False]
  have b: "comparePassword (bcrypt example_eks) ''p1'' ''no digest'' = Inr False"
    by blast
  from 3 comparePassword_throws_only_on_library_failure
         [of failing_lib "''p1''" "row_password alice" _ "Error ''Error comparing the password''"]
  have c: "comparePassword failing_lib ''p1'' (row_password alice)
       = Inl (Error ''Error comparing the password'')"
    by blast
  from a b 3 c show ?thesis by blast
qed

section \<open>Listing the users\<close>

text \<open>
  C8. \<open>getAllUsers\<close> returns one entry per stored user, in order; the entry of a user holds
  exactly the properties id, email, name, role, created_at and updated_at of that user,
  and no password.
\<close>

theorem getAllUsers_entries:
  "\<exists>allUsers. getAllUsers db = (Inr allUsers, db)
     \<and> length allUsers = length db
     \<and> (\<forall>i < length db. allUsers ! i =
           [(''id'', JNum (row_id (db ! i))), (''email'', JStr (row_email (db ! i))),
            (''name'', JStr (row_name (db ! i))), (''role'', JStr (row_role (db ! i))),
            (''created_at'', JDate (row_created_at (db ! i))),
            (''updated_at'', JDate (row_updated_at (db ! i)))])
     \<and> (\<forall>entry \<in> set allUsers.
           keys entry = [''id'', ''email'', ''name'', ''role'', ''created_at'', ''updated_at'']
           \<and> ''password'' \<notin> set (keys entry))"
  by (auto simp: getAllUsers_def select_from_def select_fields_def keys_def)

theorem getAllUsers_entries_witness:
  "(0::nat) < length [alice, bob] \<and>
   (\<exists>allUsers. getAllUsers [alice, bob] = (Inr allUsers, [alice, bob])
     \<and> length allUsers = 2
     \<and> allUsers ! 0 = [(''id'', JNum 1), (''email'', JStr ''a@x.com''), (''name'', JStr ''A''),
                       (''role'', JStr ''user''), (''created_at'', JDate 100), (''updated_at'', JDate 100)]
     \<and> allUsers ! 0 \<in> set allUsers
     \<and> keys (allUsers ! 0) = [''id'', ''email'', ''name'', ''role'', ''created_at'', ''updated_at''])"
proof -
  from getAllUsers_entries [of "[alice, bob]"] obtain allUsers
    where g: "getAllUsers [alice, bob] = (Inr allUsers, [alice, bob])"
      and l: "length allUsers = length [alice, bob]"
      and n: "\<forall>i < length [alice, bob]. allUsers ! i =
           [(''id'', JNum (row_id ([alice, bob] ! i))), (''email'', JStr (row_email ([alice, bob] ! i))),
            (''name'', JStr (row_name ([alice, bob] ! i))), (''role'', JStr (row_role ([alice, bob] ! i))),
            (''created_at'', JDate (row_created_at ([alice, bob] ! i))),
            (''updated_at'', JDate (row_updated_at ([alice, bob] ! i)))]"
      and k: "\<forall>entry \<in> set allUsers.
           keys entry = [''id'', ''email'', ''name'', ''role'', ''created_at'', ''updated_at'']
           \<and> ''password'' \<notin> set (keys entry)"
    by blast
  from l have m: "allUsers ! 0 \<in> set allUsers" by (simp add: nth_mem)
  from n have "allUsers ! 0 = [(''id'', JNum 1), (''email'', JStr ''a@x.com''), (''name'', JStr ''A''),
                       (''role'', JStr ''user''), (''created_at'', JDate 100), (''updated_at'', JDate 100)]"
    by (simp add: alice_def)
  with g l m k show ?thesis by auto
qed

section \<open>The table is only ever extended\<close>

text \<open>
  C9. \<open>authenticateUser\<close> and \<open>getAllUsers\<close> leave the users table as it was, whether they
  succeed or fail; \<open>createUser\<close> leaves it as it was or appends one row, and in both cases
  the rows that were stored are unchanged.
\<close>

theorem user_table_frame:
  "snd (authenticateUser lib db cred) = db
   \<and> snd (getAllUsers db) = db
   \<and> (snd (createUser lib rnd g db arg) = db
       \<or> (\<exists>u. snd (createUser lib rnd g db arg) = db @ [u]))
   \<and> take (length db) (snd (createUser lib rnd g db arg)) = db"
  by (auto simp: authenticateUser_eq createUser_eq getAllUsers_def select_from_def Let_def
      split: option.splits sum.splits)

section \<open>The default role\<close>

text \<open>
  C10. When the argument of \<open>createUser\<close> omits the role, a successful call stores a row
  whose role is \<open>user\<close> and returns a projection whose role is \<open>user\<close>.
\<close>

theorem createUser_default_role:
  assumes "createUser lib rnd g db \<lparr>email = e, password = p, name = n, role = None\<rparr> = (Inr newUser, db')"
  shows "map_of newUser ''role'' = Some (JStr ''user'')
       \<and> (\<exists>u. db' = db @ [u] \<and> row_role u = ''user'')"
  using assms by (auto simp: createUser_eq Let_def split: if_splits sum.splits)

theorem createUser_default_role_witness:
  "createUser (bcrypt example_eks) ''salt'' \<lparr>gen_id = 1, gen_now = 100\<rparr> []
       \<lparr>email = ''a@x.com'', password = ''p1'', name = ''A'', role = None\<rparr>
     = (Inr [(''id'', JNum 1), (''name'', JStr ''A''), (''email'', JStr ''a@x.com''),
             (''role'', JStr ''user''), (''created_at'', JDate 100)], [alice])
   \<and> map_of [(''id'', JNum 1), (''name'', JStr ''A''), (''email'', JStr ''a@x.com''),
             (''role'', JStr ''user''), (''created_at'', JDate 100)] ''role'' = Some (JStr ''user'')
   \<and> (\<exists>u. [alice] = [] @ [u] \<and> row_role u = ''user'')"
proof -
  have h: "createUser (bcrypt example_eks) ''salt'' \<lparr>gen_id = 1, gen_now = 100\<rparr> []
       \<lparr>email = ''a@x.com'', password = ''p1'', name = ''A'', role = None\<rparr>
     = (Inr [(''id'', JNum 1), (''name'', JStr ''A''), (''email'', JStr ''a@x.com''),
             (''role'', JStr ''user''), (''created_at'', JDate 100)], [alice])"
    by code_simp
  from createUser_default_role [OF h] h show ?thesis by blast
qed

end
